theory Spec2Isabelle
  imports Main "HOL-Library.Word" "HOL-Library.Sublist"
begin

unbundle bit_operations_syntax

section \<open>Python values read from the font source\<close>

text \<open>
  The hint records of \<^verbatim>\<open>Lib/ufo2ft/instructionCompiler.py\<close> are plain Python
  objects stored in the \<^verbatim>\<open>lib\<close> of a font or of a glyph: dictionaries with string
  keys, strings, integers, booleans, lists and \<^verbatim>\<open>None\<close>. A dictionary is an
  association list in insertion order; \<^verbatim>\<open>items()\<close> walks it front to back.
\<close>

datatype pyval =
    PNone
  | PBool bool
  | PInt int
  | PStr string
  | PList "pyval list"
  | PDict "(string \<times> pyval) list"

type_synonym pydict = "(string \<times> pyval) list"

text \<open>Python's truth value of an object (\<^verbatim>\<open>if x:\<close>, \<^verbatim>\<open>not x\<close>).\<close>

fun truthy :: "pyval \<Rightarrow> bool" where
  "truthy PNone = False"
| "truthy (PBool b) = b"
| "truthy (PInt n) = (n \<noteq> 0)"
| "truthy (PStr s) = (s \<noteq> [])"
| "truthy (PList xs) = (xs \<noteq> [])"
| "truthy (PDict d) = (d \<noteq> [])"

text \<open>\<^verbatim>\<open>type(x).__name__\<close>\<close>

fun type_name :: "pyval \<Rightarrow> string" where
  "type_name PNone = ''NoneType''"
| "type_name (PBool b) = ''bool''"
| "type_name (PInt n) = ''int''"
| "type_name (PStr s) = ''str''"
| "type_name (PList xs) = ''list''"
| "type_name (PDict d) = ''dict''"

text \<open>
  Exceptions are values: the class of the exception and its message. Only the two
  exceptions raised by the source itself carry the message the source formats; the ones
  raised by Python's built-in operations carry a short description.
\<close>

datatype exc_class =
    TypeError | NotImplementedError | AttributeError | KeyError | IndexError
  | ValueError | OverflowError | AssertionError

datatype pyerr = Raise exc_class string

text \<open>The logger: a level and the formatted message, in the order of emission.\<close>

datatype level = DEBUG | INFO | WARNING | ERROR

type_synonym log = "(level \<times> string) list"

definition sq :: string where
  "sq = [CHR 0x27]"

text \<open>\<^verbatim>\<open>str(n)\<close> of a length.\<close>

fun str_nat :: "nat \<Rightarrow> string" where
  "str_nat n =
     (if n < 10 then [char_of (48 + n)]
      else str_nat (n div 10) @ [char_of (48 + n mod 10)])"

declare str_nat.simps [simp del]

text \<open>
  \<^verbatim>\<open>d.get(key, default)\<close> on a dictionary, and on any object: an object that is not
  a dictionary has no \<^verbatim>\<open>get\<close> and the call raises AttributeError.
\<close>

definition dict_get :: "pydict \<Rightarrow> string \<Rightarrow> pyval \<Rightarrow> pyval" where
  "dict_get d k dflt = (case map_of d k of None \<Rightarrow> dflt | Some v \<Rightarrow> v)"

fun py_get :: "pyval \<Rightarrow> string \<Rightarrow> pyval \<Rightarrow> pyerr + pyval" where
  "py_get (PDict d) k dflt = Inr (dict_get d k dflt)"
| "py_get v k dflt =
     Inl (Raise AttributeError
       (sq @ type_name v @ sq @ '' object has no attribute '' @ sq @ ''get'' @ sq))"

text \<open>
  \<^verbatim>\<open>key in obj\<close> for a string key: key membership in a dictionary, substring test
  in a string, element test in a list, TypeError on anything else.
\<close>

fun py_contains :: "pyval \<Rightarrow> string \<Rightarrow> pyerr + bool" where
  "py_contains (PDict d) k = Inr (k \<in> fst ` set d)"
| "py_contains (PStr s) k = Inr (sublist k s)"
| "py_contains (PList xs) k = Inr (PStr k \<in> set xs)"
| "py_contains v k =
     Inl (Raise TypeError (''argument of type '' @ sq @ type_name v @ sq @ '' is not iterable''))"

text \<open>\<^verbatim>\<open>obj[key]\<close> for a string key.\<close>

fun py_getitem :: "pyval \<Rightarrow> string \<Rightarrow> pyerr + pyval" where
  "py_getitem (PDict d) k =
     (case map_of d k of None \<Rightarrow> Inl (Raise KeyError k) | Some v \<Rightarrow> Inr v)"
| "py_getitem (PStr s) k = Inl (Raise TypeError ''string indices must be integers'')"
| "py_getitem (PList xs) k = Inl (Raise TypeError ''list indices must be integers or slices'')"
| "py_getitem v k =
     Inl (Raise TypeError (sq @ type_name v @ sq @ '' object is not subscriptable''))"

section \<open>Keys of the font source\<close>

text \<open>The constants of \<^verbatim>\<open>ufo2ft.constants\<close> that the module imports.\<close>

definition TRUETYPE_INSTRUCTIONS_KEY :: string where
  "TRUETYPE_INSTRUCTIONS_KEY = ''public.truetype.instructions''"

definition OBJECT_LIBS_KEY :: string where
  "OBJECT_LIBS_KEY = ''public.objectLibs''"

definition TRUETYPE_ROUND_KEY :: string where
  "TRUETYPE_ROUND_KEY = ''public.truetype.roundOffsetToGrid''"

definition TRUETYPE_METRICS_KEY :: string where
  "TRUETYPE_METRICS_KEY = ''public.truetype.useMyMetrics''"

definition TRUETYPE_OVERLAP_KEY :: string where
  "TRUETYPE_OVERLAP_KEY = ''public.truetype.overlap''"

section \<open>The format guard\<close>

text \<open>
  \<^verbatim>\<open>_check_tt_data_format(self, ttdata, name)\<close>: returns nothing, raises TypeError
  when \<^verbatim>\<open>formatVersion\<close> is not a string and NotImplementedError when it is a
  string other than \<^verbatim>\<open>"1"\<close>.
\<close>

definition msg_illegal_type :: "pyval \<Rightarrow> string \<Rightarrow> string" where
  "msg_illegal_type formatVersion name =
     ''Illegal type '' @ sq @ type_name formatVersion @ sq @ '' instead of 'str' for ''
     @ ''formatVersion for instructions in '' @ name @ ''.''"

definition msg_unknown_version :: "string \<Rightarrow> string \<Rightarrow> string" where
  "msg_unknown_version formatVersion name =
     ''Unknown formatVersion '' @ formatVersion @ '' for instructions in '' @ name @ ''.''"

definition check_tt_data_format :: "pyval \<Rightarrow> string \<Rightarrow> pyerr + unit" where
  "check_tt_data_format ttdata name =
     (case py_get ttdata ''formatVersion'' PNone of
        Inl e \<Rightarrow> Inl e
      | Inr formatVersion \<Rightarrow>
          (case formatVersion of
             PStr s \<Rightarrow>
               if s \<noteq> ''1'' then Inl (Raise NotImplementedError (msg_unknown_version s name))
               else Inr ()
           | _ \<Rightarrow> Inl (Raise TypeError (msg_illegal_type formatVersion name))))"

section \<open>Compiled glyphs, source glyphs, the two fonts\<close>

text \<open>
  A \<^verbatim>\<open>ttProgram.Program\<close> belongs to fontTools. The module observes it in two
  ways only: its truth value (\<^verbatim>\<open>not ttGlyph.program\<close>) and the length of
  \<^verbatim>\<open>program.getBytecode()\<close>. The model is the pair of these observations; no relation
  between them is assumed.
\<close>

record ttProgram =
  prog_nonempty :: bool
  bytecode :: "8 word list"

text \<open>
  The component flags of fontTools' \<^verbatim>\<open>_g_l_y_f\<close> module (the OpenType values), and
  the test \<^verbatim>\<open>flags & FLAG\<close>. Flags are Python integers, hence unbounded.
\<close>

definition ROUND_XY_TO_GRID :: int where
  "ROUND_XY_TO_GRID = 4"

definition USE_MY_METRICS :: int where
  "USE_MY_METRICS = 512"

definition OVERLAP_COMPOUND :: int where
  "OVERLAP_COMPOUND = 1024"

definition has_flag :: "int \<Rightarrow> int \<Rightarrow> bool" where
  "has_flag f FLAG = (f AND FLAG \<noteq> 0)"

record component =
  glyphName :: string
  flags :: int

text \<open>
  A compiled glyph: what \<^verbatim>\<open>isComposite()\<close> answers, its components, and the
  \<^verbatim>\<open>program\<close> attribute, which may be missing (\<^verbatim>\<open>hasattr\<close>).
\<close>

record ttglyph =
  isComposite :: bool
  tt_components :: "component list"
  program :: "ttProgram option"

record ufo_component =
  baseGlyph :: string
  comp_identifier :: "string option"

record glyph =
  name :: string
  lib :: pydict
  ufo_components :: "ufo_component list"

record ufo =
  ufo_lib :: pydict
  ufo_glyphs :: "string \<rightharpoonup> glyph"

text \<open>
  The output font: horizontal metrics (advance width, left side bearing), the glyph
  table, the attributes of \<^verbatim>\<open>maxp\<close>, the values of the \<^verbatim>\<open>cvt\<close> table when
  there is one, and the program tables by tag.
\<close>

record otf =
  hmtx :: "string \<rightharpoonup> int \<times> int"
  glyf :: "(string \<times> ttglyph) list"
  maxp :: "string \<rightharpoonup> pyval"
  cvt :: "16 word list option"
  programs :: "string \<rightharpoonup> ttProgram"

record InstructionCompiler =
  ufo :: ufo
  otf :: otf
  autoUseMyMetrics :: bool

section \<open>The hash verifier\<close>

text \<open>
  \<^verbatim>\<open>_check_glyph_hash\<close>. The hash pen of fontTools is the parameter \<open>hashPen\<close>:
  from the advance width and the compiled glyph to the hash string.
\<close>

definition msg_hash_missing :: "string \<Rightarrow> string" where
  "msg_hash_missing gname =
     ''Glyph hash missing, glyph '' @ sq @ gname @ sq @ '' will have no instructions in font.''"

definition msg_hash_mismatch :: "string \<Rightarrow> string" where
  "msg_hash_mismatch gname =
     ''Glyph hash mismatch, glyph '' @ sq @ gname @ sq @ '' will have no instructions in font.''"

definition check_glyph_hash ::
  "(int \<Rightarrow> ttglyph \<Rightarrow> string) \<Rightarrow> glyph \<Rightarrow> ttglyph \<Rightarrow> pyval \<Rightarrow> otf \<Rightarrow> pyerr + (bool \<times> log)" where
  "check_glyph_hash hashPen glyph ttg glyph_hash font =
     (case hmtx font (name glyph) of
        None \<Rightarrow> Inl (Raise KeyError (name glyph))
      | Some (ttwidth, lsb) \<Rightarrow>
          (let hash = hashPen ttwidth ttg in
           if glyph_hash = PNone then Inr (False, [(ERROR, msg_hash_missing (name glyph))])
           else if glyph_hash \<noteq> PStr hash then
             Inr (False, [(ERROR, msg_hash_mismatch (name glyph))])
           else Inr (True, [])))"

section \<open>The per-glyph program compiler\<close>

definition msg_assembly_missing :: "string \<Rightarrow> string" where
  "msg_assembly_missing gname =
     ''Glyph assembly missing, glyph '' @ sq @ gname @ sq
     @ '' will have no instructions in font.''"

definition msg_no_instructions :: "string \<Rightarrow> string" where
  "msg_no_instructions gname = ''Glyph '' @ sq @ gname @ sq @ '' has no instructions.''"

text \<open>
  \<^verbatim>\<open>_compile_tt_glyph_program\<close>. The assembler of fontTools
  (\<^verbatim>\<open>Program().fromAssembly(asm)\<close>) is the parameter \<open>fromAssembly\<close>; it may raise.
\<close>

definition compile_tt_glyph_program ::
  "(pyval \<Rightarrow> pyerr + ttProgram) \<Rightarrow> (int \<Rightarrow> ttglyph \<Rightarrow> string) \<Rightarrow> InstructionCompiler
     \<Rightarrow> glyph \<Rightarrow> ttglyph \<Rightarrow> pyval \<Rightarrow> pyerr + (ttglyph \<times> log)" where
  "compile_tt_glyph_program fromAssembly hashPen self glyph ttg ttdata =
     (case check_tt_data_format ttdata (''glyph '' @ sq @ name glyph @ sq) of
        Inl e \<Rightarrow> Inl e
      | Inr _ \<Rightarrow>
     (case py_get ttdata ''id'' PNone of
        Inl e \<Rightarrow> Inl e
      | Inr glyph_hash \<Rightarrow>
     (case check_glyph_hash hashPen glyph ttg glyph_hash (otf self) of
        Inl e \<Rightarrow> Inl e
      | Inr (ok, lg) \<Rightarrow>
          if \<not> ok then Inr (ttg, lg)
          else
     (case py_get ttdata ''assembly'' PNone of
        Inl e \<Rightarrow> Inl e
      | Inr asm \<Rightarrow>
          if asm = PNone then Inr (ttg, lg @ [(ERROR, msg_assembly_missing (name glyph))])
          else if \<not> truthy asm then Inr (ttg, lg @ [(DEBUG, msg_no_instructions (name glyph))])
          else
            (case fromAssembly asm of
               Inl e \<Rightarrow> Inl e
             | Inr p \<Rightarrow> Inr (ttg\<lparr>program := Some p\<rparr>, lg))))))"

section \<open>The composite flag resolver\<close>

definition msg_components_differ :: "string \<Rightarrow> nat \<Rightarrow> nat \<Rightarrow> string" where
  "msg_components_differ gname n_ufo n_ttf =
     ''Number of components differ between UFO and TTF in glyph '' @ sq @ gname @ sq
     @ '' ('' @ str_nat n_ufo @ '' vs. '' @ str_nat n_ttf
     @ '', not setting component flags fromUFO. They may still be set heuristically.''"

definition msg_ignoring_metrics :: "string \<Rightarrow> string \<Rightarrow> string \<Rightarrow> string" where
  "msg_ignoring_metrics cid prev gname =
     ''Ignoring USE_MY_METRICS flag on component '' @ sq @ cid @ sq
     @ '' because it has been set on component '' @ sq @ prev @ sq
     @ '' already in glyph '' @ gname @ ''.''"

text \<open>
  The condition of the \<^verbatim>\<open>elif\<close> at lines 157 to 165: the glyph lib has the object
  libs, they contain the identifier, and the component's lib has the rounding key or
  the metrics key. \<^verbatim>\<open>and\<close> and \<^verbatim>\<open>or\<close> evaluate left to right and stop early.
\<close>

definition has_component_lib :: "pydict \<Rightarrow> string \<Rightarrow> pyerr + bool" where
  "has_component_lib glib cid =
     (case py_contains (PDict glib) OBJECT_LIBS_KEY of
        Inl e \<Rightarrow> Inl e
      | Inr False \<Rightarrow> Inr False
      | Inr True \<Rightarrow>
     (case py_getitem (PDict glib) OBJECT_LIBS_KEY of
        Inl e \<Rightarrow> Inl e
      | Inr object_libs \<Rightarrow>
     (case py_contains object_libs cid of
        Inl e \<Rightarrow> Inl e
      | Inr False \<Rightarrow> Inr False
      | Inr True \<Rightarrow>
     (case py_getitem object_libs cid of
        Inl e \<Rightarrow> Inl e
      | Inr component_lib \<Rightarrow>
     (case py_contains component_lib TRUETYPE_ROUND_KEY of
        Inl e \<Rightarrow> Inl e
      | Inr True \<Rightarrow> Inr True
      | Inr False \<Rightarrow> py_contains component_lib TRUETYPE_METRICS_KEY)))))"

text \<open>
  \<^verbatim>\<open>component_lib = glyph.lib[OBJECT_LIBS_KEY][ufo_component_id]\<close>, read once the
  condition holds.
\<close>

definition get_component_lib :: "pydict \<Rightarrow> string \<Rightarrow> pyerr + pyval" where
  "get_component_lib glib cid =
     (case py_getitem (PDict glib) OBJECT_LIBS_KEY of
        Inl e \<Rightarrow> Inl e
      | Inr object_libs \<Rightarrow> py_getitem object_libs cid)"

text \<open>
  \<^verbatim>\<open>if use_my_metrics_comp:\<close> tests the truth value of the remembered identifier:
  \<^verbatim>\<open>None\<close> and the empty string are both false.
\<close>

fun claimed :: "string option \<Rightarrow> bool" where
  "claimed None = False"
| "claimed (Some cid) = (cid \<noteq> [])"

text \<open>
  Lines 166 to 190: the flags of one component whose lib was found. The state threaded
  through the loop is \<open>use_my_metrics_comp\<close>.
\<close>

definition apply_component_lib ::
  "bool \<Rightarrow> string \<Rightarrow> string \<Rightarrow> pyval \<Rightarrow> string option \<Rightarrow> int
     \<Rightarrow> pyerr + (int \<times> string option \<times> log)" where
  "apply_component_lib auto gname cid component_lib use_my_metrics_comp f =
     (case py_get component_lib TRUETYPE_ROUND_KEY (PBool True) of
        Inl e \<Rightarrow> Inl e
      | Inr r \<Rightarrow>
          (let f1 = (if truthy r then f OR ROUND_XY_TO_GRID else f AND NOT ROUND_XY_TO_GRID);
               lg1 = (if truthy r then [(INFO, ''    ROUND_XY_TO_GRID'')] else [])
           in if auto then Inr (f1, use_my_metrics_comp, lg1)
              else
                (case py_get component_lib TRUETYPE_METRICS_KEY (PBool False) of
                   Inl e \<Rightarrow> Inl e
                 | Inr m \<Rightarrow>
                     if truthy m then
                       (let f2 = f1 AND NOT USE_MY_METRICS
                        in if claimed use_my_metrics_comp then
                             Inr (f2, use_my_metrics_comp,
                                  lg1 @ [(WARNING,
                                    msg_ignoring_metrics cid (the use_my_metrics_comp) gname)])
                           else Inr (f2 OR USE_MY_METRICS, Some cid, lg1))
                     else Inr (f1, use_my_metrics_comp, lg1))))"

text \<open>Lines 192 to 197: the overlap flag, on the first component only.\<close>

definition apply_overlap :: "pydict \<Rightarrow> nat \<Rightarrow> int \<Rightarrow> int" where
  "apply_overlap glib i f =
     (if i = 0 \<and> TRUETYPE_OVERLAP_KEY \<in> fst ` set glib then
        (if truthy (dict_get glib TRUETYPE_OVERLAP_KEY (PBool False))
         then f OR OVERLAP_COMPOUND else f AND NOT OVERLAP_COMPOUND)
      else f)"

text \<open>The body of the loop, for component \<open>c\<close> at index \<open>i\<close>.\<close>

definition flag_step ::
  "bool \<Rightarrow> glyph \<Rightarrow> nat \<Rightarrow> string option \<Rightarrow> component \<Rightarrow> ufo_component
     \<Rightarrow> pyerr + (component \<times> string option \<times> log)" where
  "flag_step auto g i use_my_metrics_comp c u =
     (case comp_identifier u of
        None \<Rightarrow>
          Inr (c\<lparr>flags := apply_overlap (lib g) i (flags c OR ROUND_XY_TO_GRID)\<rparr>,
               use_my_metrics_comp, [])
      | Some cid \<Rightarrow>
          (case has_component_lib (lib g) cid of
             Inl e \<Rightarrow> Inl e
           | Inr False \<Rightarrow>
               Inr (c\<lparr>flags := apply_overlap (lib g) i (flags c)\<rparr>, use_my_metrics_comp, [])
           | Inr True \<Rightarrow>
               (case get_component_lib (lib g) cid of
                  Inl e \<Rightarrow> Inl e
                | Inr component_lib \<Rightarrow>
                    (case apply_component_lib auto (name g) cid component_lib
                            use_my_metrics_comp (flags c) of
                       Inl e \<Rightarrow> Inl e
                     | Inr (f, umm, lg) \<Rightarrow>
                         Inr (c\<lparr>flags := apply_overlap (lib g) i f\<rparr>, umm, lg)))))"

text \<open>
  \<^verbatim>\<open>for i, c in enumerate(ttglyph.components)\<close>, reading
  \<^verbatim>\<open>glyph.components[i]\<close>, which raises IndexError out of range.
\<close>

fun flags_loop ::
  "bool \<Rightarrow> glyph \<Rightarrow> nat \<Rightarrow> string option \<Rightarrow> component list
     \<Rightarrow> pyerr + (component list \<times> log)" where
  "flags_loop auto g i use_my_metrics_comp [] = Inr ([], [])"
| "flags_loop auto g i use_my_metrics_comp (c # cs) =
     (if length (ufo_components g) \<le> i then Inl (Raise IndexError ''list index out of range'')
      else
        (case flag_step auto g i use_my_metrics_comp c (ufo_components g ! i) of
           Inl e \<Rightarrow> Inl e
         | Inr (c', umm, lg) \<Rightarrow>
             (case flags_loop auto g (Suc i) umm cs of
                Inl e \<Rightarrow> Inl e
              | Inr (cs', lg') \<Rightarrow> Inr (c' # cs', lg @ lg'))))"

definition set_composite_flags ::
  "InstructionCompiler \<Rightarrow> glyph \<Rightarrow> ttglyph \<Rightarrow> pyerr + (ttglyph \<times> log)" where
  "set_composite_flags self g ttg =
     (if length (tt_components ttg) \<noteq> length (ufo_components g) then
        Inr (ttg, [(ERROR, msg_components_differ (name g) (length (ufo_components g))
                             (length (tt_components ttg)))])
      else
        (case flags_loop (autoUseMyMetrics self) g 0 None (tt_components ttg) of
           Inl e \<Rightarrow> Inl e
         | Inr (cs, lg) \<Rightarrow> Inr (ttg\<lparr>tt_components := cs\<rparr>, lg)))"

text \<open>
  A component of the source glyph requests USE_MY_METRICS when it has an identifier, the
  condition of the \<^verbatim>\<open>elif\<close> holds for it, and its lib has a true value under the
  metrics key: the reads that lead the loop to line 180.
\<close>

definition requests_metrics :: "glyph \<Rightarrow> nat \<Rightarrow> bool" where
  "requests_metrics g i =
     (case comp_identifier (ufo_components g ! i) of
        None \<Rightarrow> False
      | Some cid \<Rightarrow>
          (case has_component_lib (lib g) cid of
             Inr True \<Rightarrow>
               (case get_component_lib (lib g) cid of
                  Inr component_lib \<Rightarrow>
                    (case py_get component_lib TRUETYPE_METRICS_KEY (PBool False) of
                       Inr m \<Rightarrow> truthy m
                     | Inl e \<Rightarrow> False)
                | Inl e \<Rightarrow> False)
           | _ \<Rightarrow> False))"

section \<open>Compiling the instructions of one glyph\<close>

definition msg_skipping :: "string \<Rightarrow> string" where
  "msg_skipping gname =
     ''Skipping compilation of instructions for glyph '' @ sq @ gname @ sq
     @ '' because it is not in the input UFO.''"

definition msg_removing_empty :: "string \<Rightarrow> string" where
  "msg_removing_empty gname =
     ''Removing empty program from composite glyph '' @ sq @ gname @ sq"

text \<open>
  Lines 99 to 101: \<^verbatim>\<open>hasattr(ttGlyph, "program") and not ttGlyph.program\<close>, then
  \<^verbatim>\<open>delattr\<close>.
\<close>

definition remove_empty_program :: "string \<Rightarrow> ttglyph \<Rightarrow> ttglyph \<times> log" where
  "remove_empty_program gname ttg =
     (case program ttg of
        None \<Rightarrow> (ttg, [])
      | Some p \<Rightarrow>
          if \<not> prog_nonempty p then (ttg\<lparr>program := None\<rparr>, [(DEBUG, msg_removing_empty gname)])
          else (ttg, []))"

definition compileGlyphInstructions ::
  "(pyval \<Rightarrow> pyerr + ttProgram) \<Rightarrow> (int \<Rightarrow> ttglyph \<Rightarrow> string) \<Rightarrow> InstructionCompiler
     \<Rightarrow> ttglyph \<Rightarrow> string \<Rightarrow> pyerr + (ttglyph \<times> log)" where
  "compileGlyphInstructions fromAssembly hashPen self ttGlyph gname =
     (case ufo_glyphs (ufo self) gname of
        None \<Rightarrow> Inr (ttGlyph, [(INFO, msg_skipping gname)])
      | Some g \<Rightarrow>
          (let ttdata = dict_get (lib g) TRUETYPE_INSTRUCTIONS_KEY PNone
           in case (if ttdata \<noteq> PNone
                    then compile_tt_glyph_program fromAssembly hashPen self g ttGlyph ttdata
                    else Inr (ttGlyph, [])) of
                Inl e \<Rightarrow> Inl e
              | Inr (ttg1, lg1) \<Rightarrow>
                  if isComposite ttg1 then
                    (case remove_empty_program gname ttg1 of
                       (ttg2, lg2) \<Rightarrow>
                         (case set_composite_flags self g ttg2 of
                            Inl e \<Rightarrow> Inl e
                          | Inr (ttg3, lg3) \<Rightarrow> Inr (ttg3, lg1 @ lg2 @ lg3)))
                  else Inr (ttg1, lg1)))"

section \<open>The global programs\<close>

definition msg_table_empty :: "string \<Rightarrow> string" where
  "msg_table_empty table_tag =
     ''Assembly for table '' @ sq @ table_tag @ sq @ '' is empty, table not added to font.''"

text \<open>\<^verbatim>\<open>_compile_program(self, key, table_tag)\<close>: the new font and the log.\<close>

definition compile_program ::
  "(pyval \<Rightarrow> pyerr + ttProgram) \<Rightarrow> InstructionCompiler \<Rightarrow> string \<Rightarrow> string
     \<Rightarrow> pyerr + (otf \<times> log)" where
  "compile_program fromAssembly self key table_tag =
     (if table_tag \<notin> {''prep'', ''fpgm''} then Inl (Raise AssertionError [])
      else
        (let ttdata = dict_get (ufo_lib (ufo self)) TRUETYPE_INSTRUCTIONS_KEY PNone
         in if truthy ttdata then
              (case check_tt_data_format ttdata (''lib key '' @ sq @ key @ sq) of
                 Inl e \<Rightarrow> Inl e
               | Inr _ \<Rightarrow>
                   (case py_get ttdata key PNone of
                      Inl e \<Rightarrow> Inl e
                    | Inr asm \<Rightarrow>
                        if asm = PNone then Inr (otf self, [])
                        else if \<not> truthy asm then
                          Inr (otf self, [(DEBUG, msg_table_empty table_tag)])
                        else
                          (case fromAssembly asm of
                             Inl e \<Rightarrow> Inl e
                           | Inr p \<Rightarrow>
                               Inr ((otf self)\<lparr>programs := (programs (otf self))(table_tag \<mapsto> p)\<rparr>,
                                    []))))
            else Inr (otf self, [])))"

definition setupTable_fpgm ::
  "(pyval \<Rightarrow> pyerr + ttProgram) \<Rightarrow> InstructionCompiler \<Rightarrow> pyerr + (otf \<times> log)" where
  "setupTable_fpgm fromAssembly self = compile_program fromAssembly self ''fontProgram'' ''fpgm''"

definition setupTable_prep ::
  "(pyval \<Rightarrow> pyerr + ttProgram) \<Rightarrow> InstructionCompiler \<Rightarrow> pyerr + (otf \<times> log)" where
  "setupTable_prep fromAssembly self =
     compile_program fromAssembly self ''controlValueProgram'' ''prep''"

section \<open>The interpreter limits\<close>

definition maxp_names :: "string list" where
  "maxp_names =
     [''maxStorage'', ''maxFunctionDefs'', ''maxInstructionDefs'', ''maxStackElements'',
      ''maxZones'', ''maxTwilightPoints'']"

text \<open>
  The loop of lines 206 to 217: \<^verbatim>\<open>setattr(maxp, name, value)\<close> for every name whose
  value in the record is not \<^verbatim>\<open>None\<close>.
\<close>

fun copy_maxp :: "pyval \<Rightarrow> string list \<Rightarrow> (string \<rightharpoonup> pyval) \<Rightarrow> pyerr + (string \<rightharpoonup> pyval)" where
  "copy_maxp ttdata [] m = Inr m"
| "copy_maxp ttdata (n # ns) m =
     (case py_get ttdata n PNone of
        Inl e \<Rightarrow> Inl e
      | Inr v \<Rightarrow> copy_maxp ttdata ns (if v \<noteq> PNone then m(n \<mapsto> v) else m))"

text \<open>
  The sizes of lines 220 to 224, one for every glyph that has a \<^verbatim>\<open>program\<close>, and
  \<^verbatim>\<open>max(sizes, default=0)\<close>.
\<close>

definition program_sizes :: "(string \<times> ttglyph) list \<Rightarrow> nat list" where
  "program_sizes glyphs =
     map (\<lambda>g. length (bytecode (the (program g))))
       (filter (\<lambda>g. program g \<noteq> None) (map snd glyphs))"

definition max_default :: "nat list \<Rightarrow> nat \<Rightarrow> nat" where
  "max_default xs dflt = (case xs of [] \<Rightarrow> dflt | y # ys \<Rightarrow> fold max ys y)"

definition update_maxp :: "InstructionCompiler \<Rightarrow> pyerr + otf" where
  "update_maxp self =
     (let ttdata = dict_get (ufo_lib (ufo self)) TRUETYPE_INSTRUCTIONS_KEY PNone
      in case (if truthy ttdata then copy_maxp ttdata maxp_names (maxp (otf self))
               else Inr (maxp (otf self))) of
           Inl e \<Rightarrow> Inl e
         | Inr m \<Rightarrow>
             Inr ((otf self)\<lparr>maxp :=
               m(''maxSizeOfInstructions'' \<mapsto>
                   PInt (int (max_default (program_sizes (glyf (otf self))) 0)))\<rparr>))"

section \<open>The control value table\<close>

text \<open>
  \<^verbatim>\<open>int(k)\<close> of a string, for ASCII text: white space around the number is dropped,
  one sign may come first, and the digits may be grouped by single underscores. The
  digits of other scripts, which Python accepts as well, are outside this model.
\<close>

definition is_space :: "char \<Rightarrow> bool" where
  "is_space c = (c \<in> {CHR 0x09, CHR 0x0A, CHR 0x0B, CHR 0x0C, CHR 0x0D,
                     CHR 0x1C, CHR 0x1D, CHR 0x1E, CHR 0x1F, CHR 0x20})"

definition is_digit :: "char \<Rightarrow> bool" where
  "is_digit c = (48 \<le> (of_char c :: nat) \<and> (of_char c :: nat) \<le> 57)"

definition digit_val :: "char \<Rightarrow> nat" where
  "digit_val c = of_char c - 48"

definition strip :: "string \<Rightarrow> string" where
  "strip s = rev (dropWhile is_space (rev (dropWhile is_space s)))"

fun parse_digits :: "nat \<Rightarrow> string \<Rightarrow> nat option" where
  "parse_digits acc [] = Some acc"
| "parse_digits acc [c] = (if is_digit c then Some (10 * acc + digit_val c) else None)"
| "parse_digits acc (c # d # cs) =
     (if is_digit c then parse_digits (10 * acc + digit_val c) (d # cs)
      else if c = CHR ''_'' \<and> is_digit d then parse_digits (10 * acc + digit_val d) cs
      else None)"

definition parse_nat :: "string \<Rightarrow> nat option" where
  "parse_nat s =
     (case s of
        [] \<Rightarrow> None
      | c # cs \<Rightarrow> if is_digit c then parse_digits (digit_val c) cs else None)"

definition py_int :: "string \<Rightarrow> int option" where
  "py_int s =
     (case strip s of
        [] \<Rightarrow> None
      | c # cs \<Rightarrow>
          if c = CHR ''-'' then map_option (\<lambda>n. - int n) (parse_nat cs)
          else if c = CHR ''+'' then map_option int (parse_nat cs)
          else map_option int (parse_nat (c # cs)))"

text \<open>
  \<^verbatim>\<open>{int(k): v for k, v in cvt_dict.items()}\<close>: the pairs in the order of the items;
  in the dictionary that Python builds from them a later pair replaces an earlier one
  with the same key, which \<open>int_dict_get\<close> follows.
\<close>

fun int_keys :: "pydict \<Rightarrow> pyerr + (int \<times> pyval) list" where
  "int_keys [] = Inr []"
| "int_keys ((k, v) # d) =
     (case py_int k of
        None \<Rightarrow> Inl (Raise ValueError (''invalid literal for int() with base 10: '' @ sq @ k @ sq))
      | Some n \<Rightarrow>
          (case int_keys d of
             Inl e \<Rightarrow> Inl e
           | Inr r \<Rightarrow> Inr ((n, v) # r)))"

definition py_items :: "pyval \<Rightarrow> pyerr + pydict" where
  "py_items v =
     (case v of
        PDict d \<Rightarrow> Inr d
      | _ \<Rightarrow> Inl (Raise AttributeError
                 (sq @ type_name v @ sq @ '' object has no attribute '' @ sq @ ''items'' @ sq)))"

definition int_dict_get :: "(int \<times> pyval) list \<Rightarrow> int \<Rightarrow> pyval \<Rightarrow> pyval" where
  "int_dict_get ps i dflt = (case map_of (rev ps) i of None \<Rightarrow> dflt | Some v \<Rightarrow> v)"

definition py_max :: "int list \<Rightarrow> pyerr + int" where
  "py_max xs =
     (case xs of
        [] \<Rightarrow> Inl (Raise ValueError ''max() arg is an empty sequence'')
      | y # ys \<Rightarrow> Inr (fold max ys y))"

text \<open>
  \<^verbatim>\<open>array.array("h", cvts)\<close>: every item must be an integer that fits a signed
  16-bit field; the first item that does not raises.
\<close>

fun item_h :: "pyval \<Rightarrow> pyerr + 16 word" where
  "item_h (PInt n) =
     (if n < - 32768 then Inl (Raise OverflowError ''signed short integer is less than minimum'')
      else if 32767 < n then
        Inl (Raise OverflowError ''signed short integer is greater than maximum'')
      else Inr (word_of_int n))"
| "item_h (PBool b) = Inr (of_bool b)"
| "item_h v = Inl (Raise TypeError (''an integer is required (got type '' @ type_name v @ '')''))"

fun array_h :: "pyval list \<Rightarrow> pyerr + 16 word list" where
  "array_h [] = Inr []"
| "array_h (v # vs) =
     (case item_h v of
        Inl e \<Rightarrow> Inl e
      | Inr w \<Rightarrow>
          (case array_h vs of
             Inl e \<Rightarrow> Inl e
           | Inr ws \<Rightarrow> Inr (w # ws)))"

text \<open>Lines 229 to 242: the list \<open>cvts\<close>.\<close>

definition cvt_list :: "InstructionCompiler \<Rightarrow> pyerr + pyval list" where
  "cvt_list self =
     (let ttdata = dict_get (ufo_lib (ufo self)) TRUETYPE_INSTRUCTIONS_KEY PNone
      in if truthy ttdata then
           (case check_tt_data_format ttdata (''key '' @ sq @ ''controlValue'' @ sq) of
              Inl e \<Rightarrow> Inl e
            | Inr _ \<Rightarrow>
                (case py_get ttdata ''controlValue'' PNone of
                   Inl e \<Rightarrow> Inl e
                 | Inr cvt_dict \<Rightarrow>
                     if truthy cvt_dict then
                       (case py_items cvt_dict of
                          Inl e \<Rightarrow> Inl e
                        | Inr items \<Rightarrow>
                            (case int_keys items of
                               Inl e \<Rightarrow> Inl e
                             | Inr ps \<Rightarrow>
                                 (case py_max (map fst ps) of
                                    Inl e \<Rightarrow> Inl e
                                  | Inr max_cvt \<Rightarrow>
                                      Inr (map (\<lambda>i. int_dict_get ps i (PInt 0)) [0..max_cvt]))))
                     else Inr []))
         else Inr [])"

text \<open>\<^verbatim>\<open>setupTable_cvt\<close>: the font, with a \<^verbatim>\<open>cvt\<close> table when \<open>cvts\<close> is not empty.\<close>

definition setupTable_cvt :: "InstructionCompiler \<Rightarrow> pyerr + otf" where
  "setupTable_cvt self =
     (case cvt_list self of
        Inl e \<Rightarrow> Inl e
      | Inr cvts \<Rightarrow>
          if cvts \<noteq> [] then
            (case array_h cvts of
               Inl e \<Rightarrow> Inl e
             | Inr vals \<Rightarrow> Inr ((otf self)\<lparr>cvt := Some vals\<rparr>))
          else Inr (otf self))"


section \<open>Example inputs\<close>

text \<open>
  Concrete fonts and glyphs on which the theorems below are run. The two collaborators
  of fontTools are replaced by simple stand-ins: an assembler that accepts any string,
  and a hash pen that tells simple glyphs from composites only. No theorem other than
  the examples depends on what the stand-ins compute.
\<close>

definition example_fromAssembly :: "pyval \<Rightarrow> pyerr + ttProgram" where
  "example_fromAssembly asm =
     (case asm of
        PStr s \<Rightarrow> Inr \<lparr>prog_nonempty = True, bytecode = map (\<lambda>c. of_nat (of_char c)) s\<rparr>
      | _ \<Rightarrow> Inl (Raise TypeError (''expected str, got '' @ type_name asm)))"

definition example_hashPen :: "int \<Rightarrow> ttglyph \<Rightarrow> string" where
  "example_hashPen w ttg = (if isComposite ttg then ''w.composite'' else ''w.simple'')"


definition example_glyph :: "pydict \<Rightarrow> glyph" where
  "example_glyph R =
     \<lparr>name = ''a'', lib = [(TRUETYPE_INSTRUCTIONS_KEY, PDict R)], ufo_components = []\<rparr>"

definition example_otf :: otf where
  "example_otf =
     \<lparr>hmtx = [''a'' \<mapsto> (500, 20), ''h'' \<mapsto> (600, 30)], glyf = [], maxp = Map.empty,
      cvt = None, programs = Map.empty\<rparr>"

text \<open>A compiler whose source font holds the one glyph \<open>g\<close> and has the font lib \<open>L\<close>.\<close>

definition example_compiler :: "pydict \<Rightarrow> glyph \<Rightarrow> InstructionCompiler" where
  "example_compiler L g =
     \<lparr>ufo = \<lparr>ufo_lib = L, ufo_glyphs = [name g \<mapsto> g]\<rparr>,
      otf = example_otf, autoUseMyMetrics = False\<rparr>"

definition example_ttglyph :: ttglyph where
  "example_ttglyph = \<lparr>isComposite = False, tt_components = [], program = None\<rparr>"

definition empty_program :: ttProgram where
  "empty_program = \<lparr>prog_nonempty = False, bytecode = []\<rparr>"

text \<open>
  A composite source glyph with two components without identifiers and the overlap flag,
  a compiled composite with one component (so the counts differ), and one with two.
\<close>

definition example_source_composite :: glyph where
  "example_source_composite =
     \<lparr>name = ''h'', lib = [(TRUETYPE_OVERLAP_KEY, PBool True)],
      ufo_components =
        [\<lparr>baseGlyph = ''n'', comp_identifier = None\<rparr>,
         \<lparr>baseGlyph = ''l'', comp_identifier = None\<rparr>]\<rparr>"

definition example_composite_one :: ttglyph where
  "example_composite_one =
     \<lparr>isComposite = True,
      tt_components = [\<lparr>glyphName = ''n'', flags = 0\<rparr>],
      program = Some empty_program\<rparr>"

definition example_composite_two :: ttglyph where
  "example_composite_two =
     \<lparr>isComposite = True,
      tt_components = [\<lparr>glyphName = ''n'', flags = 0\<rparr>, \<lparr>glyphName = ''l'', flags = 0\<rparr>],
      program = Some empty_program\<rparr>"


definition example_limits_compiler :: "pydict \<Rightarrow> InstructionCompiler" where
  "example_limits_compiler R =
     \<lparr>ufo = \<lparr>ufo_lib = [(TRUETYPE_INSTRUCTIONS_KEY, PDict R)], ufo_glyphs = Map.empty\<rparr>,
      otf = example_otf
        \<lparr>glyf := [(''a'', example_ttglyph\<lparr>program :=
                       Some \<lparr>prog_nonempty = True, bytecode = [0xB0, 0x00, 0x2F]\<rparr>\<rparr>),
                  (''b'', example_ttglyph)],
         maxp := [''maxZones'' \<mapsto> PInt 1, ''maxSizeOfInstructions'' \<mapsto> PInt 0,
                  ''maxStackElements'' \<mapsto> PInt 0]\<rparr>,
      autoUseMyMetrics = False\<rparr>"


definition example_bad_record :: pydict where
  "example_bad_record = [(''formatVersion'', PStr ''2''), (''maxStorage'', PInt 7)]"






text \<open>
  A source composite whose two components both request USE_MY_METRICS; the identifier of
  the first one is the parameter.
\<close>

definition example_metrics_glyph :: "string \<Rightarrow> glyph" where
  "example_metrics_glyph first_id =
     \<lparr>name = ''h'',
      lib = [(OBJECT_LIBS_KEY,
              PDict [(first_id, PDict [(TRUETYPE_METRICS_KEY, PBool True)]),
                     (''b'', PDict [(TRUETYPE_METRICS_KEY, PBool True)])])],
      ufo_components =
        [\<lparr>baseGlyph = ''n'', comp_identifier = Some first_id\<rparr>,
         \<lparr>baseGlyph = ''l'', comp_identifier = Some ''b''\<rparr>]\<rparr>"

section \<open>Properties of the format guard\<close>

text \<open>
  Claim C2. For every record given to the format guard: when \<^verbatim>\<open>formatVersion\<close> is
  missing or is not a string the guard raises TypeError; when it is a string other than
  \<^verbatim>\<open>"1"\<close> the guard raises NotImplementedError; the guard returns without raising
  exactly when it is the string \<^verbatim>\<open>"1"\<close>; and the two exception classes differ.
\<close>

theorem check_tt_data_format_kinds:
  "((\<forall>s. dict_get d ''formatVersion'' PNone \<noteq> PStr s) \<longrightarrow>
      check_tt_data_format (PDict d) loc =
        Inl (Raise TypeError (msg_illegal_type (dict_get d ''formatVersion'' PNone) loc)))
   \<and> (\<forall>s. dict_get d ''formatVersion'' PNone = PStr s \<and> s \<noteq> ''1'' \<longrightarrow>
        check_tt_data_format (PDict d) loc =
          Inl (Raise NotImplementedError (msg_unknown_version s loc)))
   \<and> (check_tt_data_format (PDict d) loc = Inr () \<longleftrightarrow>
        dict_get d ''formatVersion'' PNone = PStr ''1'')
   \<and> TypeError \<noteq> NotImplementedError"
  by (cases "dict_get d ''formatVersion'' PNone") (simp_all add: check_tt_data_format_def)

theorem check_tt_data_format_kinds_witness:
  "check_tt_data_format (PDict [(''formatVersion'', PInt 1)]) ''location'' =
     Inl (Raise TypeError (msg_illegal_type (PInt 1) ''location''))
   \<and> check_tt_data_format (PDict []) ''location'' =
     Inl (Raise TypeError (msg_illegal_type PNone ''location''))
   \<and> check_tt_data_format (PDict [(''formatVersion'', PStr ''2'')]) ''location'' =
     Inl (Raise NotImplementedError (msg_unknown_version ''2'' ''location''))
   \<and> check_tt_data_format (PDict [(''formatVersion'', PStr ''1'')]) ''location'' = Inr ()"
  using check_tt_data_format_kinds [of "[(''formatVersion'', PInt 1)]" "''location''"]
        check_tt_data_format_kinds [of "[]" "''location''"]
        check_tt_data_format_kinds [of "[(''formatVersion'', PStr ''2'')]" "''location''"]
        check_tt_data_format_kinds [of "[(''formatVersion'', PStr ''1'')]" "''location''"]
  by (simp add: dict_get_def)

section \<open>Properties of the per-glyph program compiler\<close>

lemma check_tt_data_format_bad:
  assumes "dict_get R ''formatVersion'' PNone \<noteq> PStr ''1''"
  shows "\<exists>e. check_tt_data_format (PDict R) loc = Inl e"
  using assms
  by (cases "dict_get R ''formatVersion'' PNone") (simp_all add: check_tt_data_format_def)





lemma compile_tt_glyph_program_bad_format:
  assumes "check_tt_data_format ttdata (''glyph '' @ sq @ name g @ sq) = Inl e"
  shows "compile_tt_glyph_program fa hp self g ttg ttdata = Inl e"
  using assms by (simp add: compile_tt_glyph_program_def)











section \<open>Properties of the composite flag resolver\<close>

lemma has_flag_round: "has_flag f ROUND_XY_TO_GRID = bit f 2"
  using and_exp_eq_0_iff_not_bit [of f 2] by (simp add: has_flag_def ROUND_XY_TO_GRID_def)

lemma has_flag_metrics: "has_flag f USE_MY_METRICS = bit f 9"
  using and_exp_eq_0_iff_not_bit [of f 9] by (simp add: has_flag_def USE_MY_METRICS_def)

lemma has_flag_overlap: "has_flag f OVERLAP_COMPOUND = bit f 10"
  using and_exp_eq_0_iff_not_bit [of f 10] by (simp add: has_flag_def OVERLAP_COMPOUND_def)

lemma bit_ROUND: "bit ROUND_XY_TO_GRID n = (n = 2)"
  using bit_exp_iff [where ?'a = int, of 2 n] by (simp add: ROUND_XY_TO_GRID_def)

lemma bit_METRICS: "bit USE_MY_METRICS n = (n = 9)"
  using bit_exp_iff [where ?'a = int, of 9 n] by (simp add: USE_MY_METRICS_def)

lemma bit_OVERLAP: "bit OVERLAP_COMPOUND n = (n = 10)"
  using bit_exp_iff [where ?'a = int, of 10 n] by (simp add: OVERLAP_COMPOUND_def)

lemmas bit_flag_simps = bit_ROUND bit_METRICS bit_OVERLAP bit_or_iff bit_and_iff bit_not_iff

lemma apply_overlap_bit:
  "bit (apply_overlap glib i f) n =
     (if n = 10 \<and> i = 0 \<and> TRUETYPE_OVERLAP_KEY \<in> fst ` set glib
      then truthy (dict_get glib TRUETYPE_OVERLAP_KEY (PBool False)) else bit f n)"
  by (auto simp: apply_overlap_def bit_flag_simps)

lemma apply_component_lib_other_bits:
  "apply_component_lib auto gname cid cl umm f = Inr (f', umm', lg) \<Longrightarrow> n \<noteq> 2 \<Longrightarrow> n \<noteq> 9 \<Longrightarrow>
     bit f' n = bit f n"
  by (auto simp: apply_component_lib_def Let_def bit_flag_simps split: sum.splits if_splits)

text \<open>
  One turn of the loop leaves every bit other than the rounding and the metrics bit to
  the overlap step.
\<close>

lemma flag_step_shape:
  assumes "flag_step auto g i umm c u = Inr (c', umm', lg)"
  shows "\<exists>f. c' = c\<lparr>flags := apply_overlap (lib g) i f\<rparr>
           \<and> (\<forall>n. n \<noteq> 2 \<and> n \<noteq> 9 \<longrightarrow> bit f n = bit (flags c) n)"
proof (cases "comp_identifier u")
  case None
  with assms have "c' = c\<lparr>flags := apply_overlap (lib g) i (flags c OR ROUND_XY_TO_GRID)\<rparr>"
    by (simp add: flag_step_def)
  moreover have "\<forall>n. n \<noteq> 2 \<and> n \<noteq> 9 \<longrightarrow>
      bit (flags c OR ROUND_XY_TO_GRID) n = bit (flags c) n"
    by (simp add: bit_flag_simps)
  ultimately show ?thesis by blast
next
  case (Some cid)
  show ?thesis
  proof (cases "has_component_lib (lib g) cid")
    case (Inl e)
    with Some assms show ?thesis by (simp add: flag_step_def)
  next
    case (Inr b)
    show ?thesis
    proof (cases b)
      case False
      with Some Inr assms have "c' = c\<lparr>flags := apply_overlap (lib g) i (flags c)\<rparr>"
        by (simp add: flag_step_def)
      then show ?thesis by blast
    next
      case True
      with Some Inr assms obtain cl f where
        "apply_component_lib auto (name g) cid cl umm (flags c) = Inr (f, umm', lg)"
        "c' = c\<lparr>flags := apply_overlap (lib g) i f\<rparr>"
        by (auto simp: flag_step_def split: sum.splits)
      then show ?thesis
        using apply_component_lib_other_bits by blast
    qed
  qed
qed

lemma flag_step_bit10:
  assumes "flag_step auto g i umm c u = Inr (c', umm', lg)"
  shows "bit (flags c') 10 =
       (if i = 0 \<and> TRUETYPE_OVERLAP_KEY \<in> fst ` set (lib g)
        then truthy (dict_get (lib g) TRUETYPE_OVERLAP_KEY (PBool False)) else bit (flags c) 10)"
proof -
  from flag_step_shape [OF assms] obtain f where
    "c' = c\<lparr>flags := apply_overlap (lib g) i f\<rparr>" "bit f 10 = bit (flags c) 10"
    by auto
  then show ?thesis by (simp add: apply_overlap_bit)
qed

lemma flags_loop_length:
  "flags_loop auto g i umm cs = Inr (cs', lg) \<Longrightarrow> length cs' = length cs"
  by (induction cs arbitrary: i umm cs' lg) (auto split: if_splits sum.splits)

lemma flags_loop_bit10:
  "flags_loop auto g i umm cs = Inr (cs', lg) \<Longrightarrow> j < length cs \<Longrightarrow>
     bit (flags (cs' ! j)) 10 =
       (if i + j = 0 \<and> TRUETYPE_OVERLAP_KEY \<in> fst ` set (lib g)
        then truthy (dict_get (lib g) TRUETYPE_OVERLAP_KEY (PBool False))
        else bit (flags (cs ! j)) 10)"
proof (induction cs arbitrary: i umm cs' lg j)
  case Nil
  then show ?case by simp
next
  case (Cons c cs)
  from Cons.prems(1) obtain c' umm' lg1 cs1 lg2 where
    step: "flag_step auto g i umm c (ufo_components g ! i) = Inr (c', umm', lg1)" and
    rest: "flags_loop auto g (Suc i) umm' cs = Inr (cs1, lg2)" and
    res: "cs' = c' # cs1"
    by (auto split: if_splits sum.splits)
  show ?case
  proof (cases j)
    case 0
    with step res show ?thesis by (simp add: flag_step_bit10)
  next
    case (Suc k)
    with Cons.prems(2) have "k < length cs" by simp
    from Cons.IH [OF rest this] Suc res show ?thesis by simp
  qed
qed

text \<open>
  Claim C8. When the number of compiled components differs from the number of source
  components, \<^verbatim>\<open>_set_composite_flags\<close> returns the glyph it was given, unchanged in
  every component and flag, and logs exactly one error. The function has no other
  output than this glyph and the log, so no other glyph can change.
\<close>

theorem set_composite_flags_mismatch:
  "length (tt_components ttg) \<noteq> length (ufo_components g) \<Longrightarrow>
     set_composite_flags self g ttg =
       Inr (ttg, [(ERROR, msg_components_differ (name g) (length (ufo_components g))
                            (length (tt_components ttg)))])"
  by (simp add: set_composite_flags_def)

theorem set_composite_flags_mismatch_witness:
  "length (tt_components example_composite_one) \<noteq> length (ufo_components example_source_composite)
   \<and> set_composite_flags (example_compiler [] example_source_composite) example_source_composite
       example_composite_one =
     Inr (example_composite_one, [(ERROR, msg_components_differ ''h'' 2 1)])"
proof -
  have h: "length (tt_components example_composite_one) \<noteq>
             length (ufo_components example_source_composite)"
    by (simp add: example_composite_one_def example_source_composite_def)
  show ?thesis
    using h set_composite_flags_mismatch [OF h, of "example_compiler [] example_source_composite"]
    by (simp add: example_composite_one_def example_source_composite_def numeral_2_eq_2)
qed

text \<open>
  Claim C7, as stated, fails when the component counts differ: the resolver returns
  before its loop, and component 0 is not given the overlap flag although the glyph
  metadata has it set.
\<close>

theorem set_composite_flags_overlap_counterexample:
  "set_composite_flags (example_compiler [] example_source_composite) example_source_composite
       example_composite_one =
     Inr (example_composite_one, [(ERROR, msg_components_differ ''h'' 2 1)])
   \<and> dict_get (lib example_source_composite) TRUETYPE_OVERLAP_KEY (PBool False) = PBool True
   \<and> \<not> has_flag (flags (tt_components example_composite_one ! 0)) OVERLAP_COMPOUND"
  by (simp add: set_composite_flags_def example_composite_one_def example_source_composite_def
        dict_get_def has_flag_def numeral_2_eq_2)

lemma example_flags_result:
  "set_composite_flags (example_compiler [] example_source_composite) example_source_composite
       example_composite_two =
     Inr (example_composite_two\<lparr>tt_components :=
            [\<lparr>glyphName = ''n'', flags = 1028\<rparr>, \<lparr>glyphName = ''l'', flags = 4\<rparr>]\<rparr>, [])"
  by (simp add: set_composite_flags_def example_composite_two_def example_source_composite_def
        example_compiler_def flag_step_def apply_overlap_def dict_get_def
        ROUND_XY_TO_GRID_def OVERLAP_COMPOUND_def)

text \<open>
  Claim C7, amended. Whenever \<^verbatim>\<open>_set_composite_flags\<close> returns, the components are
  as many as before and the overlap flag of every component with an index above 0 is what
  it was. When moreover the component counts agree, the overlap flag of component 0 is
  the truth value of the glyph's overlap entry if the glyph lib has one, and what it was
  if not.
\<close>

theorem set_composite_flags_overlap:
  assumes "set_composite_flags self g ttg = Inr (ttg', lg)"
  shows "length (tt_components ttg') = length (tt_components ttg)
    \<and> (\<forall>j. 0 < j \<and> j < length (tt_components ttg) \<longrightarrow>
          has_flag (flags (tt_components ttg' ! j)) OVERLAP_COMPOUND =
          has_flag (flags (tt_components ttg ! j)) OVERLAP_COMPOUND)
    \<and> (length (tt_components ttg) = length (ufo_components g) \<and> tt_components ttg \<noteq> [] \<longrightarrow>
          has_flag (flags (tt_components ttg' ! 0)) OVERLAP_COMPOUND =
            (if TRUETYPE_OVERLAP_KEY \<in> fst ` set (lib g)
             then truthy (dict_get (lib g) TRUETYPE_OVERLAP_KEY (PBool False))
             else has_flag (flags (tt_components ttg ! 0)) OVERLAP_COMPOUND))"
proof (cases "length (tt_components ttg) = length (ufo_components g)")
  case False
  with assms have "ttg' = ttg" by (simp add: set_composite_flags_def)
  with False show ?thesis by simp
next
  case True
  with assms obtain cs where
    loop: "flags_loop (autoUseMyMetrics self) g 0 None (tt_components ttg) = Inr (cs, lg)" and
    res: "ttg' = ttg\<lparr>tt_components := cs\<rparr>"
    by (auto simp: set_composite_flags_def split: sum.splits)
  have len: "length cs = length (tt_components ttg)"
    using loop by (rule flags_loop_length)
  have later: "has_flag (flags (cs ! j)) OVERLAP_COMPOUND =
                 has_flag (flags (tt_components ttg ! j)) OVERLAP_COMPOUND"
    if "0 < j" "j < length (tt_components ttg)" for j
    using flags_loop_bit10 [OF loop that(2)] that(1) by (simp add: has_flag_overlap)
  have first: "has_flag (flags (cs ! 0)) OVERLAP_COMPOUND =
            (if TRUETYPE_OVERLAP_KEY \<in> fst ` set (lib g)
             then truthy (dict_get (lib g) TRUETYPE_OVERLAP_KEY (PBool False))
             else has_flag (flags (tt_components ttg ! 0)) OVERLAP_COMPOUND)"
    if "tt_components ttg \<noteq> []"
    using flags_loop_bit10 [OF loop, of 0] that by (simp add: has_flag_overlap)
  from len later first res show ?thesis by simp
qed

theorem set_composite_flags_overlap_witness:
  "set_composite_flags (example_compiler [] example_source_composite) example_source_composite
       example_composite_two =
     Inr (example_composite_two\<lparr>tt_components :=
            [\<lparr>glyphName = ''n'', flags = 1028\<rparr>, \<lparr>glyphName = ''l'', flags = 4\<rparr>]\<rparr>, [])
   \<and> has_flag 1028 OVERLAP_COMPOUND \<and> \<not> has_flag 4 OVERLAP_COMPOUND
   \<and> \<not> has_flag (flags (tt_components example_composite_two ! 1)) OVERLAP_COMPOUND"
  using set_composite_flags_overlap [OF example_flags_result] example_flags_result
  by (simp add: example_composite_two_def example_source_composite_def dict_get_def has_flag_def
        OVERLAP_COMPOUND_def)

section \<open>Properties of the interpreter limits\<close>






section \<open>Which consumers call the format guard\<close>

lemma setupTable_cvt_bad_format:
  assumes "truthy (dict_get (ufo_lib (ufo self)) TRUETYPE_INSTRUCTIONS_KEY PNone)"
      and "check_tt_data_format (dict_get (ufo_lib (ufo self)) TRUETYPE_INSTRUCTIONS_KEY PNone)
             (''key '' @ sq @ ''controlValue'' @ sq) = Inl e"
  shows "setupTable_cvt self = Inl e"
  using assms by (simp add: setupTable_cvt_def cvt_list_def)

lemma compile_program_bad_format:
  assumes "truthy (dict_get (ufo_lib (ufo self)) TRUETYPE_INSTRUCTIONS_KEY PNone)"
      and "table_tag = ''prep'' \<or> table_tag = ''fpgm''"
      and "check_tt_data_format (dict_get (ufo_lib (ufo self)) TRUETYPE_INSTRUCTIONS_KEY PNone)
             (''lib key '' @ sq @ key @ sq) = Inl e"
  shows "compile_program fa self key table_tag = Inl e"
  using assms by (auto simp: compile_program_def)

lemma compileGlyphInstructions_bad_format:
  assumes "ufo_glyphs (ufo self) gname = Some g"
      and "dict_get (lib g) TRUETYPE_INSTRUCTIONS_KEY PNone \<noteq> PNone"
      and "check_tt_data_format (dict_get (lib g) TRUETYPE_INSTRUCTIONS_KEY PNone)
             (''glyph '' @ sq @ name g @ sq) = Inl e"
  shows "compileGlyphInstructions fa hp self ttg gname = Inl e"
  using assms compile_tt_glyph_program_bad_format [OF assms(3)]
  by (simp add: compileGlyphInstructions_def)

text \<open>
  Claim C4, as stated, fails on two counts. A font-level record that is empty, and so has
  no \<^verbatim>\<open>formatVersion\<close>, is skipped by the test \<^verbatim>\<open>if ttdata:\<close> and the CVT builder
  returns without raising. And \<^verbatim>\<open>update_maxp\<close> never calls the guard: with
  \<^verbatim>\<open>formatVersion\<close> \<^verbatim>\<open>"2"\<close> it returns, having copied \<^verbatim>\<open>maxStorage\<close> from the
  record.
\<close>

theorem format_guard_first_counterexample:
  "dict_get (ufo_lib (ufo (example_limits_compiler []))) TRUETYPE_INSTRUCTIONS_KEY PNone = PDict []
   \<and> dict_get [] ''formatVersion'' PNone = PNone
   \<and> setupTable_cvt (example_limits_compiler []) = Inr (otf (example_limits_compiler []))
   \<and> dict_get example_bad_record ''formatVersion'' PNone = PStr ''2''
   \<and> update_maxp (example_limits_compiler example_bad_record) =
       Inr ((otf (example_limits_compiler example_bad_record))
         \<lparr>maxp := (maxp (otf (example_limits_compiler example_bad_record)))
             (''maxStorage'' \<mapsto> PInt 7, ''maxSizeOfInstructions'' \<mapsto> PInt 3)\<rparr>)"
  by (simp add: setupTable_cvt_def cvt_list_def update_maxp_def example_limits_compiler_def
        example_bad_record_def dict_get_def maxp_names_def max_default_def program_sizes_def
        example_otf_def example_ttglyph_def)

text \<open>
  Claim C4, amended. The CVT builder and the compiler of the two global programs call the
  format guard on every font-level record that is a non-empty dictionary, and the
  per-glyph compiler on every glyph-level record of a glyph of the font source, before
  anything else is read from the record: when \<^verbatim>\<open>formatVersion\<close> is not the string
  \<^verbatim>\<open>"1"\<close> the operation raises the guard's error and returns nothing else. A font-level
  record that is absent or empty is skipped by the CVT builder and the global program
  compiler without any error and without any change.
\<close>

theorem format_guard_first:
  "(dict_get (ufo_lib (ufo self)) TRUETYPE_INSTRUCTIONS_KEY PNone = PDict R \<and> R \<noteq> []
      \<and> dict_get R ''formatVersion'' PNone \<noteq> PStr ''1'' \<longrightarrow>
      (\<exists>e. check_tt_data_format (PDict R) (''key '' @ sq @ ''controlValue'' @ sq) = Inl e
          \<and> setupTable_cvt self = Inl e)
    \<and> (\<forall>key table_tag. table_tag = ''prep'' \<or> table_tag = ''fpgm'' \<longrightarrow>
         (\<exists>e. check_tt_data_format (PDict R) (''lib key '' @ sq @ key @ sq) = Inl e
             \<and> compile_program fa self key table_tag = Inl e)))
   \<and> (ufo_glyphs (ufo self) gname = Some g
      \<and> dict_get (lib g) TRUETYPE_INSTRUCTIONS_KEY PNone = PDict G
      \<and> dict_get G ''formatVersion'' PNone \<noteq> PStr ''1'' \<longrightarrow>
      (\<exists>e. check_tt_data_format (PDict G) (''glyph '' @ sq @ name g @ sq) = Inl e
          \<and> compileGlyphInstructions fa hp self ttg gname = Inl e))
   \<and> (\<not> truthy (dict_get (ufo_lib (ufo self)) TRUETYPE_INSTRUCTIONS_KEY PNone) \<longrightarrow>
        setupTable_cvt self = Inr (otf self)
        \<and> (\<forall>key table_tag. table_tag = ''prep'' \<or> table_tag = ''fpgm'' \<longrightarrow>
              compile_program fa self key table_tag = Inr (otf self, [])))"
proof (intro conjI impI allI)
  assume a: "dict_get (ufo_lib (ufo self)) TRUETYPE_INSTRUCTIONS_KEY PNone = PDict R \<and> R \<noteq> []
      \<and> dict_get R ''formatVersion'' PNone \<noteq> PStr ''1''"
  then have t: "truthy (dict_get (ufo_lib (ufo self)) TRUETYPE_INSTRUCTIONS_KEY PNone)"
    by simp
  from a obtain e where e: "check_tt_data_format (PDict R) (''key '' @ sq @ ''controlValue'' @ sq) = Inl e"
    using check_tt_data_format_bad by blast
  with a t have "setupTable_cvt self = Inl e"
    using setupTable_cvt_bad_format [of self e] by simp
  with e show "\<exists>e. check_tt_data_format (PDict R) (''key '' @ sq @ ''controlValue'' @ sq) = Inl e
          \<and> setupTable_cvt self = Inl e"
    by blast
  fix key table_tag :: string
  assume tag: "table_tag = ''prep'' \<or> table_tag = ''fpgm''"
  from a obtain e' where e': "check_tt_data_format (PDict R) (''lib key '' @ sq @ key @ sq) = Inl e'"
    using check_tt_data_format_bad by blast
  with a t tag have "compile_program fa self key table_tag = Inl e'"
    using compile_program_bad_format [of self table_tag key e' fa] by simp
  with e' show "\<exists>e. check_tt_data_format (PDict R) (''lib key '' @ sq @ key @ sq) = Inl e
             \<and> compile_program fa self key table_tag = Inl e"
    by blast
next
  assume a: "ufo_glyphs (ufo self) gname = Some g
      \<and> dict_get (lib g) TRUETYPE_INSTRUCTIONS_KEY PNone = PDict G
      \<and> dict_get G ''formatVersion'' PNone \<noteq> PStr ''1''"
  then obtain e where e: "check_tt_data_format (PDict G) (''glyph '' @ sq @ name g @ sq) = Inl e"
    using check_tt_data_format_bad by blast
  with a have "compileGlyphInstructions fa hp self ttg gname = Inl e"
    using compileGlyphInstructions_bad_format [of self gname g e fa hp ttg] by simp
  with e show "\<exists>e. check_tt_data_format (PDict G) (''glyph '' @ sq @ name g @ sq) = Inl e
          \<and> compileGlyphInstructions fa hp self ttg gname = Inl e"
    by blast
next
  assume "\<not> truthy (dict_get (ufo_lib (ufo self)) TRUETYPE_INSTRUCTIONS_KEY PNone)"
  then show "setupTable_cvt self = Inr (otf self)"
    by (simp add: setupTable_cvt_def cvt_list_def)
next
  fix key table_tag :: string
  assume "\<not> truthy (dict_get (ufo_lib (ufo self)) TRUETYPE_INSTRUCTIONS_KEY PNone)"
    and "table_tag = ''prep'' \<or> table_tag = ''fpgm''"
  then show "compile_program fa self key table_tag = Inr (otf self, [])"
    by (auto simp: compile_program_def)
qed

theorem format_guard_first_witness:
  "setupTable_cvt (example_limits_compiler example_bad_record) =
     Inl (Raise NotImplementedError
            (msg_unknown_version ''2'' (''key '' @ sq @ ''controlValue'' @ sq)))
   \<and> compile_program example_fromAssembly (example_limits_compiler example_bad_record)
       ''fontProgram'' ''fpgm'' =
     Inl (Raise NotImplementedError
            (msg_unknown_version ''2'' (''lib key '' @ sq @ ''fontProgram'' @ sq)))
   \<and> compileGlyphInstructions example_fromAssembly example_hashPen
       (example_compiler [] (example_glyph example_bad_record)) example_ttglyph ''a'' =
     Inl (Raise NotImplementedError (msg_unknown_version ''2'' (''glyph '' @ sq @ ''a'' @ sq)))
   \<and> setupTable_cvt (example_compiler [] (example_glyph example_bad_record)) = Inr example_otf"
proof -
  have fv: "dict_get example_bad_record ''formatVersion'' PNone = PStr ''2''"
    by (simp add: example_bad_record_def dict_get_def)
  have chk: "check_tt_data_format (PDict example_bad_record) loc =
               Inl (Raise NotImplementedError (msg_unknown_version ''2'' loc))" for loc
    using fv by (simp add: check_tt_data_format_def)
  have font: "dict_get (ufo_lib (ufo (example_limits_compiler example_bad_record)))
                TRUETYPE_INSTRUCTIONS_KEY PNone = PDict example_bad_record"
    "example_bad_record \<noteq> []"
    by (simp_all add: example_limits_compiler_def dict_get_def example_bad_record_def)
  have gl: "ufo_glyphs (ufo (example_compiler [] (example_glyph example_bad_record))) ''a'' =
              Some (example_glyph example_bad_record)"
    "dict_get (lib (example_glyph example_bad_record)) TRUETYPE_INSTRUCTIONS_KEY PNone =
       PDict example_bad_record"
    "name (example_glyph example_bad_record) = ''a''"
    "\<not> truthy (dict_get (ufo_lib (ufo (example_compiler [] (example_glyph example_bad_record))))
           TRUETYPE_INSTRUCTIONS_KEY PNone)"
    "otf (example_compiler [] (example_glyph example_bad_record)) = example_otf"
    by (simp_all add: example_compiler_def example_glyph_def dict_get_def)
  show ?thesis
    using format_guard_first [where self = "example_limits_compiler example_bad_record"
        and R = example_bad_record and fa = example_fromAssembly]
      format_guard_first [where self = "example_compiler [] (example_glyph example_bad_record)"
        and gname = "''a''" and g = "example_glyph example_bad_record"
        and G = example_bad_record and fa = example_fromAssembly
        and hp = example_hashPen and ttg = example_ttglyph]
      fv font gl
    by (simp add: chk)
qed

section \<open>Properties of the control value table\<close>





















section \<open>Properties of the metrics flag\<close>

lemma apply_overlap_bit9: "bit (apply_overlap glib i f) 9 = bit f 9"
  by (simp add: apply_overlap_bit)

lemma apply_component_lib_metrics:
  assumes "apply_component_lib False gname cid cl umm f = Inr (f', umm', lg)"
  shows "\<exists>m. py_get cl TRUETYPE_METRICS_KEY (PBool False) = Inr m
     \<and> (if truthy m
        then (if claimed umm
              then \<not> bit f' 9 \<and> umm' = umm
                   \<and> (WARNING, msg_ignoring_metrics cid (the umm) gname) \<in> set lg
              else bit f' 9 \<and> umm' = Some cid)
        else umm' = umm)"
  using assms
  by (auto simp: apply_component_lib_def Let_def bit_flag_simps split: sum.splits if_splits)

lemma flag_step_metrics:
  assumes "flag_step False g i umm c (ufo_components g ! i) = Inr (c', umm', lg)"
  shows "if requests_metrics g i
         then (if claimed umm
               then \<not> bit (flags c') 9 \<and> umm' = umm \<and> (\<exists>msg. (WARNING, msg) \<in> set lg)
               else bit (flags c') 9 \<and> umm' = comp_identifier (ufo_components g ! i))
         else umm' = umm"
proof (cases "comp_identifier (ufo_components g ! i)")
  case None
  with assms show ?thesis by (simp add: flag_step_def requests_metrics_def)
next
  case (Some cid)
  show ?thesis
  proof (cases "has_component_lib (lib g) cid")
    case (Inl e)
    with Some assms show ?thesis by (simp add: flag_step_def)
  next
    case (Inr b)
    show ?thesis
    proof (cases b)
      case False
      with Some Inr assms show ?thesis by (simp add: flag_step_def requests_metrics_def)
    next
      case True
      with Some Inr assms obtain cl f where
        cl: "get_component_lib (lib g) cid = Inr cl" and
        ap: "apply_component_lib False (name g) cid cl umm (flags c) = Inr (f, umm', lg)" and
        c': "c' = c\<lparr>flags := apply_overlap (lib g) i f\<rparr>"
        by (auto simp: flag_step_def split: sum.splits)
      from apply_component_lib_metrics [OF ap] obtain m where
        m: "py_get cl TRUETYPE_METRICS_KEY (PBool False) = Inr m" and
        r: "if truthy m
            then (if claimed umm
                  then \<not> bit f 9 \<and> umm' = umm
                       \<and> (WARNING, msg_ignoring_metrics cid (the umm) (name g)) \<in> set lg
                  else bit f 9 \<and> umm' = Some cid)
            else umm' = umm"
        by blast
      have req: "requests_metrics g i = truthy m"
        using Some Inr True cl m by (simp add: requests_metrics_def)
      have b9: "bit (flags c') 9 = bit f 9"
        using c' by (simp add: apply_overlap_bit9)
      from r show ?thesis
        unfolding req b9 Some by (auto split: if_splits)
    qed
  qed
qed

lemma flags_loop_claimed:
  "flags_loop False g i umm cs = Inr (cs', lg) \<Longrightarrow> claimed umm \<Longrightarrow> j < length cs \<Longrightarrow>
     requests_metrics g (i + j) \<Longrightarrow> \<not> bit (flags (cs' ! j)) 9"
proof (induction cs arbitrary: i umm cs' lg j)
  case Nil
  then show ?case by simp
next
  case (Cons c cs)
  from Cons.prems(1) obtain c' umm' lg1 cs1 lg2 where
    step: "flag_step False g i umm c (ufo_components g ! i) = Inr (c', umm', lg1)" and
    rest: "flags_loop False g (Suc i) umm' cs = Inr (cs1, lg2)" and
    res: "cs' = c' # cs1"
    by (auto split: if_splits sum.splits)
  from flag_step_metrics [OF step] Cons.prems(2) have same: "umm' = umm"
    by (auto split: if_splits)
  show ?case
  proof (cases j)
    case 0
    with Cons.prems(4) have "requests_metrics g i" by simp
    with flag_step_metrics [OF step] Cons.prems(2) have "\<not> bit (flags c') 9" by simp
    with 0 res show ?thesis by simp
  next
    case (Suc k)
    with Cons.prems(3,4) have "k < length cs" "requests_metrics g (Suc i + k)" by simp_all
    from Cons.IH [OF rest _ this] Cons.prems(2) same Suc res show ?thesis by simp
  qed
qed

lemma flags_loop_first:
  "flags_loop False g i umm cs = Inr (cs', lg) \<Longrightarrow> \<not> claimed umm \<Longrightarrow> j < length cs \<Longrightarrow>
     requests_metrics g (i + j) \<Longrightarrow> (\<forall>k < j. \<not> requests_metrics g (i + k)) \<Longrightarrow>
     comp_identifier (ufo_components g ! (i + j)) \<noteq> Some [] \<Longrightarrow>
     bit (flags (cs' ! j)) 9
     \<and> (\<forall>j'. j < j' \<and> j' < length cs \<and> requests_metrics g (i + j') \<longrightarrow>
           \<not> bit (flags (cs' ! j')) 9)"
proof (induction cs arbitrary: i umm cs' lg j)
  case Nil
  then show ?case by simp
next
  case (Cons c cs)
  from Cons.prems(1) obtain c' umm' lg1 cs1 lg2 where
    step: "flag_step False g i umm c (ufo_components g ! i) = Inr (c', umm', lg1)" and
    rest: "flags_loop False g (Suc i) umm' cs = Inr (cs1, lg2)" and
    res: "cs' = c' # cs1"
    by (auto split: if_splits sum.splits)
  show ?case
  proof (cases j)
    case 0
    with Cons.prems(4,6) have req: "requests_metrics g i"
      and ne: "comp_identifier (ufo_components g ! i) \<noteq> Some []" by simp_all
    from flag_step_metrics [OF step] req Cons.prems(2)
    have set: "bit (flags c') 9" and umm': "umm' = comp_identifier (ufo_components g ! i)"
      by simp_all
    from req obtain cid where "comp_identifier (ufo_components g ! i) = Some cid"
      by (auto simp: requests_metrics_def split: option.splits)
    with ne umm' have cl: "claimed umm'" by simp
    have "\<not> bit (flags (cs' ! j')) 9"
      if "0 < j'" "j' < length (c # cs)" "requests_metrics g (i + j')" for j'
    proof -
      from that(1) obtain k where k: "j' = Suc k" by (cases j') auto
      with that(2,3) have "k < length cs" "requests_metrics g (Suc i + k)" by simp_all
      from flags_loop_claimed [OF rest cl this] k res show ?thesis by simp
    qed
    with set 0 res show ?thesis by simp
  next
    case (Suc k)
    with Cons.prems(5) have "\<not> requests_metrics g i" by force
    with flag_step_metrics [OF step] have same: "umm' = umm" by simp
    from Suc Cons.prems(3,4,6) have k: "k < length cs" "requests_metrics g (Suc i + k)"
      "comp_identifier (ufo_components g ! (Suc i + k)) \<noteq> Some []" by simp_all
    have before: "\<forall>l < k. \<not> requests_metrics g (Suc i + l)"
      using Cons.prems(5) Suc by (metis Suc_less_eq add_Suc_right add_Suc)
    from Cons.IH [OF rest _ k(1,2) before k(3)] Cons.prems(2) same
    have ih: "bit (flags (cs1 ! k)) 9"
      "\<forall>j'. k < j' \<and> j' < length cs \<and> requests_metrics g (Suc i + j') \<longrightarrow>
           \<not> bit (flags (cs1 ! j')) 9"
      by simp_all
    have "\<not> bit (flags (cs' ! j')) 9"
      if "j < j'" "j' < length (c # cs)" "requests_metrics g (i + j')" for j'
    proof -
      from that(1) obtain l where l: "j' = Suc l" by (cases j') auto
      with that Suc have "k < l" "l < length cs" "requests_metrics g (Suc i + l)" by simp_all
      with ih(2) l res show ?thesis by simp
    qed
    with ih(1) Suc res show ?thesis by simp
  qed
qed

text \<open>
  The first claimant wins whenever its identifier is not the empty string: with automatic
  metrics selection off and equal component counts, after the resolver returns the
  first component that requests USE_MY_METRICS has the flag and every later one that
  requests it has it cleared.
\<close>

lemma set_composite_flags_first_claimant:
  assumes "\<not> autoUseMyMetrics self"
      and "set_composite_flags self g ttg = Inr (ttg', lg)"
      and "length (tt_components ttg) = length (ufo_components g)"
      and "f < length (tt_components ttg)"
      and "requests_metrics g f"
      and "\<forall>k < f. \<not> requests_metrics g k"
      and "comp_identifier (ufo_components g ! f) \<noteq> Some []"
  shows "has_flag (flags (tt_components ttg' ! f)) USE_MY_METRICS
     \<and> (\<forall>j. f < j \<and> j < length (tt_components ttg) \<and> requests_metrics g j \<longrightarrow>
           \<not> has_flag (flags (tt_components ttg' ! j)) USE_MY_METRICS)"
proof -
  from assms(1,2,3) obtain cs where
    loop: "flags_loop False g 0 None (tt_components ttg) = Inr (cs, lg)" and
    res: "ttg' = ttg\<lparr>tt_components := cs\<rparr>"
    by (auto simp: set_composite_flags_def split: sum.splits)
  from flags_loop_first [OF loop _ assms(4), simplified, OF assms(5) _ assms(7)] assms(6) res
  show ?thesis by (simp add: has_flag_metrics)
qed

text \<open>With the identifiers \<^verbatim>\<open>"a"\<close> and \<^verbatim>\<open>"b"\<close> the second claim is dropped with a warning.\<close>

lemma set_composite_flags_named_identifier:
  "set_composite_flags (example_compiler [] (example_metrics_glyph ''a''))
       (example_metrics_glyph ''a'') example_composite_two =
     Inr (example_composite_two\<lparr>tt_components :=
            [\<lparr>glyphName = ''n'', flags = 516\<rparr>, \<lparr>glyphName = ''l'', flags = 4\<rparr>]\<rparr>,
          [(INFO, ''    ROUND_XY_TO_GRID''), (INFO, ''    ROUND_XY_TO_GRID''),
           (WARNING, msg_ignoring_metrics ''b'' ''a'' ''h'')])"
  by (simp add: set_composite_flags_def example_compiler_def example_metrics_glyph_def
        example_composite_two_def flag_step_def has_component_lib_def get_component_lib_def
        apply_component_lib_def apply_overlap_def dict_get_def
        OBJECT_LIBS_KEY_def TRUETYPE_ROUND_KEY_def TRUETYPE_METRICS_KEY_def
        TRUETYPE_OVERLAP_KEY_def ROUND_XY_TO_GRID_def USE_MY_METRICS_def)

text \<open>
  Claim C3. The code misses one case of it. The loop remembers the identifier of the
  first claimant and tests it with \<^verbatim>\<open>if use_my_metrics_comp:\<close>, which is false for the
  empty string as well as for \<^verbatim>\<open>None\<close>. When the first claimant's identifier is the
  empty string the second claimant is therefore given USE_MY_METRICS too, and no warning
  is logged: both components end with the flags 516, that is ROUND_XY_TO_GRID together
  with USE_MY_METRICS.
\<close>

theorem set_composite_flags_empty_identifier:
  "set_composite_flags (example_compiler [] (example_metrics_glyph ''''))
       (example_metrics_glyph '''') example_composite_two =
     Inr (example_composite_two\<lparr>tt_components :=
            [\<lparr>glyphName = ''n'', flags = 516\<rparr>, \<lparr>glyphName = ''l'', flags = 516\<rparr>]\<rparr>,
          [(INFO, ''    ROUND_XY_TO_GRID''), (INFO, ''    ROUND_XY_TO_GRID'')])
   \<and> \<not> autoUseMyMetrics (example_compiler [] (example_metrics_glyph ''''))
   \<and> length (tt_components example_composite_two) =
       length (ufo_components (example_metrics_glyph ''''))
   \<and> requests_metrics (example_metrics_glyph '''') 0
   \<and> requests_metrics (example_metrics_glyph '''') 1
   \<and> has_flag 516 USE_MY_METRICS"
  by (simp add: set_composite_flags_def example_compiler_def example_metrics_glyph_def
        example_composite_two_def flag_step_def has_component_lib_def get_component_lib_def
        apply_component_lib_def apply_overlap_def requests_metrics_def dict_get_def
        OBJECT_LIBS_KEY_def TRUETYPE_ROUND_KEY_def TRUETYPE_METRICS_KEY_def
        TRUETYPE_OVERLAP_KEY_def ROUND_XY_TO_GRID_def USE_MY_METRICS_def has_flag_def)

end
